theory Spec2Isabelle
  imports Main "HOL-Library.Sublist"
begin

section \<open>Data model\<close>

text \<open>
  The form-submission service keeps its submissions in a module-level array and hands out
  ids from a module-level counter (demo server, lines 13-14). Text is modelled as
  \<open>string\<close>, one \<open>char\<close> per character of the submitted text. A field of the request
  body is text or absent.
\<close>

text \<open>
  A JSON value of a response body. \<open>JDate t\<close> is a date object holding \<open>t\<close> milliseconds
  since the epoch; an object is the list of its properties in insertion order.
\<close>

datatype jsvalue =
  JUndefined
| JBool bool
| JNum int
| JStr string
| JDate int
| JArr "jsvalue list"
| JObj "(string \<times> jsvalue) list"

type_synonym jsobject = "(string \<times> jsvalue) list"

text \<open>Property read \<open>o.k\<close>: the first binding for \<open>k\<close>, \<open>undefined\<close> when there is none.\<close>

definition getprop :: "jsobject \<Rightarrow> string \<Rightarrow> jsvalue" where
  "getprop obj k = (case map_of obj k of None \<Rightarrow> JUndefined | Some v \<Rightarrow> v)"

definition keys :: "jsobject \<Rightarrow> string list" where
  "keys obj = map fst obj"

text \<open>
  The record built by the submit handler (lines 96-103); \<open>uid\<close> is the source's \<open>_id\<close>,
  \<open>createdAt\<close> the creation time in milliseconds. The record type is extensible, so a stored
  record may carry further fields.
\<close>

record userData =
  uid :: string
  name :: string
  email :: string
  message :: string
  ipAddress :: string
  createdAt :: int

text \<open>
  The state of the demo server. The counter is a JavaScript number, exact for every value
  below \<open>2^53\<close>; it is modelled as a natural number.
\<close>

record 'a server_state =
  submissions :: "'a userData_scheme list"
  submissionCounter :: nat

definition initial_state :: "unit server_state" where
  "initial_state = \<lparr>submissions = [], submissionCounter = 1\<rparr>"

text \<open>
  What a handler reads from a request: the three body fields (\<open>None\<close> for a field that
  the body does not have), and the two places the origin address is looked up in (either
  may be undefined).
\<close>

record request =
  body_name :: "string option"
  body_email :: "string option"
  body_message :: "string option"
  ip :: "string option"
  remoteAddress :: "string option"

record response =
  status :: nat
  body :: jsobject

text \<open>
  The functions of the platform and of the validation library that the service calls and
  whose code is not part of the repository: the e-mail syntax check, the e-mail
  normalisation, and the ISO rendering of a date.
\<close>

record library =
  isEmail :: "string \<Rightarrow> bool"
  normalizeEmail :: "string \<Rightarrow> string"
  toISOString :: "int \<Rightarrow> string"

section \<open>Validation chains\<close>

text \<open>
  A validation error names the field (\<open>path\<close>), carries the message given by
  \<open>withMessage\<close> and the value of the field when it was checked (\<open>None\<close> while the
  field is absent).
\<close>

record validation_error =
  path :: string
  msg :: string
  val :: "string option"

text \<open>
  The text that the library's validators and sanitizers work on: the value itself, the
  empty string for an absent field.
\<close>

fun toString :: "string option \<Rightarrow> string" where
  "toString None = []"
| "toString (Some v) = v"

text \<open>
  A chain is run left to right on the current value of its field. A validator that fails
  adds its error and the chain goes on (there is no \<open>bail\<close>); a sanitizer replaces the
  value by its result on the value's text, also in the request body, so that later steps
  and the handler see the new value.
\<close>

datatype chain_step =
  Check "string \<Rightarrow> bool" string
| Sanitize "string \<Rightarrow> string"

fun run_chain ::
  "string \<Rightarrow> chain_step list \<Rightarrow> string option \<Rightarrow> validation_error list \<times> string option" where
  "run_chain field [] v = ([], v)"
| "run_chain field (Check p m # cs) v =
     (let (es, v') = run_chain field cs v
      in ((if p (toString v) then [] else [\<lparr>path = field, msg = m, val = v\<rparr>]) @ es, v'))"
| "run_chain field (Sanitize f # cs) v = run_chain field cs (Some (f (toString v)))"

text \<open>The character classes of the name pattern \<open>/^[a-zA-Z\s]+$/\<close>.\<close>

definition isLetter :: "char \<Rightarrow> bool" where
  "isLetter c = (let n = (of_char c :: nat) in (97 \<le> n \<and> n \<le> 122) \<or> (65 \<le> n \<and> n \<le> 90))"

text \<open>\<open>\s\<close>: tab, line feed, vertical tab, form feed, carriage return, space, no-break space.\<close>

definition isSpace :: "char \<Rightarrow> bool" where
  "isSpace c = (let n = (of_char c :: nat) in (9 \<le> n \<and> n \<le> 13) \<or> n = 32 \<or> n = 160)"

text \<open>
  The validators and the sanitizer of the validation library that the chains use:
  \<open>notEmpty\<close> fails on the empty string only (a string of spaces is not empty),
  \<open>isLength\<close> measures the value as it is, \<open>matches\<close> tests the name pattern (every
  character in the class, at least one character), \<open>trim\<close> removes whitespace at both
  ends.
\<close>

definition notEmpty :: "string \<Rightarrow> bool" where
  "notEmpty s = (s \<noteq> [])"

definition isLength :: "nat \<Rightarrow> nat \<Rightarrow> string \<Rightarrow> bool" where
  "isLength lo hi s = (lo \<le> length s \<and> length s \<le> hi)"

definition matches_name :: "string \<Rightarrow> bool" where
  "matches_name s = (s \<noteq> [] \<and> list_all (\<lambda>c. isLetter c \<or> isSpace c) s)"

definition trim :: "string \<Rightarrow> string" where
  "trim s = rev (dropWhile isSpace (rev (dropWhile isSpace s)))"

text \<open>The three chains of \<open>validateInput\<close> (lines 50-72), in the order they are written.\<close>

definition name_chain :: "chain_step list" where
  "name_chain =
     [Check notEmpty ''Name is required'',
      Check (isLength 2 100) ''Name must be between 2 and 100 characters'',
      Check matches_name ''Name can only contain letters and spaces'']"

definition email_chain :: "library \<Rightarrow> chain_step list" where
  "email_chain lib =
     [Check (isEmail lib) ''Please enter a valid email address'',
      Sanitize (normalizeEmail lib),
      Check (isLength 0 255) ''Email must be less than 255 characters'']"

definition message_chain :: "chain_step list" where
  "message_chain =
     [Check notEmpty ''Message is required'',
      Check (isLength 10 1000) ''Message must be between 10 and 1000 characters'',
      Sanitize trim]"

text \<open>
  Running \<open>validateInput\<close> on a request: the errors of the three chains in order, and the
  request with its body fields replaced by the sanitized values.
\<close>

definition validateInput :: "library \<Rightarrow> request \<Rightarrow> validation_error list \<times> request" where
  "validateInput lib req =
     (let (e1, n) = run_chain ''name'' name_chain (body_name req);
          (e2, e) = run_chain ''email'' (email_chain lib) (body_email req);
          (e3, m) = run_chain ''message'' message_chain (body_message req)
      in (e1 @ e2 @ e3, req\<lparr>body_name := n, body_email := e, body_message := m\<rparr>))"

section \<open>Handlers\<close>

text \<open>The decimal rendering of the counter inside the template literal \<open>demo-${...}\<close>.\<close>

definition digit :: "nat \<Rightarrow> char" where
  "digit d = ''0123456789'' ! d"

fun decimal :: "nat \<Rightarrow> string" where
  "decimal n = (if n < 10 then [digit n] else decimal (n div 10) @ [digit (n mod 10)])"

declare decimal.simps [simp del]

text \<open>\<open>req.ip || req.connection.remoteAddress || 'unknown'\<close>: the empty string is falsy.\<close>

fun or_else :: "string option \<Rightarrow> string \<Rightarrow> string" where
  "or_else None d = d"
| "or_else (Some a) d = (if a = [] then d else a)"

definition origin :: "request \<Rightarrow> string" where
  "origin req = or_else (ip req) (or_else (remoteAddress req) ''unknown'')"

text \<open>
  An element of \<open>errors.array()\<close> as the response carries it: the properties \<open>type\<close>,
  \<open>value\<close>, \<open>msg\<close>, \<open>path\<close> and \<open>location\<close>; the undefined value of an absent field
  leaves no \<open>value\<close> property in the JSON.
\<close>

definition error_json :: "validation_error \<Rightarrow> jsvalue" where
  "error_json e =
     JObj ([(''type'', JStr ''field'')]
           @ (case val e of None \<Rightarrow> [] | Some v \<Rightarrow> [(''value'', JStr v)])
           @ [(''msg'', JStr (msg e)), (''path'', JStr (path e)), (''location'', JStr ''body'')])"

text \<open>
  \<open>POST /api/submit\<close> (lines 80-123), called at time \<open>now\<close>: the early 400 return on
  validation errors, otherwise the record is built from the sanitized body, the counter is
  incremented and the record pushed. Past the early return the three fields are text
  (\<open>accepted_fields_text\<close> below), which is how the record reads them.
\<close>

definition post_submit ::
  "library \<Rightarrow> int \<Rightarrow> request \<Rightarrow> unit server_state \<Rightarrow> response \<times> unit server_state" where
  "post_submit lib now req0 s =
     (let (errors, req) = validateInput lib req0
      in if errors \<noteq> [] then
           (\<lparr>status = 400,
             body = [(''success'', JBool False),
                     (''message'', JStr ''Validation failed''),
                     (''errors'', JArr (map error_json errors))]\<rparr>, s)
         else
           let userData = \<lparr>uid = ''demo-'' @ decimal (submissionCounter s),
                           name = toString (body_name req),
                           email = toString (body_email req),
                           message = toString (body_message req),
                           ipAddress = origin req,
                           createdAt = now\<rparr>;
               s' = \<lparr>submissions = submissions s @ [userData],
                     submissionCounter = submissionCounter s + 1\<rparr>
           in (\<lparr>status = 201,
                body = [(''success'', JBool True),
                        (''message'', JStr ''Data saved successfully''),
                        (''id'', JStr (uid userData))]\<rparr>, s'))"

text \<open>The five-field projection of the listing handler (lines 129-135).\<close>

definition project :: "'a userData_scheme \<Rightarrow> jsobject" where
  "project s =
     [(''_id'', JStr (uid s)),
      (''name'', JStr (name s)),
      (''email'', JStr (email s)),
      (''message'', JStr (message s)),
      (''createdAt'', JDate (createdAt s))]"

text \<open>
  The comparator \<open>new Date(b.createdAt) - new Date(a.createdAt)\<close> orders by creation time,
  latest first; the array sort is stable (the README asks for Node.js 14 or later), so it
  is the stable sort on the negated time. The sort works on the fresh array that \<open>map\<close>
  returns, and \<open>slice(0, 50)\<close> keeps its first 50 elements.
\<close>

definition date_of :: "jsobject \<Rightarrow> int" where
  "date_of obj = (case getprop obj ''createdAt'' of JDate t \<Rightarrow> t | _ \<Rightarrow> 0)"

definition recentSubmissions :: "'a server_state \<Rightarrow> jsobject list" where
  "recentSubmissions s =
     take 50 (sort_key (\<lambda>obj. - date_of obj) (map project (submissions s)))"

text \<open>\<open>GET /api/submissions\<close> (lines 126-150); the state is returned as it was.\<close>

definition get_submissions :: "'a server_state \<Rightarrow> response \<times> 'a server_state" where
  "get_submissions s =
     (\<lparr>status = 200,
       body = [(''success'', JBool True),
               (''data'', JArr (map JObj (recentSubmissions s)))]\<rparr>, s)"

text \<open>\<open>GET /api/health\<close> of the demo server (lines 153-160).\<close>

definition get_health :: "library \<Rightarrow> int \<Rightarrow> 'a server_state \<Rightarrow> response" where
  "get_health lib now s =
     \<lparr>status = 200,
      body = [(''status'', JStr ''healthy''),
              (''timestamp'', JStr (toISOString lib now)),
              (''database'', JStr ''demo-mode (in-memory)''),
              (''submissions_count'', JNum (int (length (submissions s))))]\<rparr>"

text \<open>
  \<open>GET /api/health\<close> of the MongoDB server; \<open>readyState\<close> is the connection state of the
  database driver, 1 when connected.
\<close>

definition get_health_mongo :: "library \<Rightarrow> int \<Rightarrow> nat \<Rightarrow> response" where
  "get_health_mongo lib now readyState =
     \<lparr>status = 200,
      body = [(''status'', JStr ''healthy''),
              (''timestamp'', JStr (toISOString lib now)),
              (''database'', JStr (if readyState = 1 then ''connected'' else ''disconnected''))]\<rparr>"

section \<open>Reading responses, sequences of requests\<close>

text \<open>The items of a listing response: the elements of its \<open>data\<close> array.\<close>

definition data_items :: "response \<Rightarrow> jsvalue list" where
  "data_items r = (case getprop (body r) ''data'' of JArr xs \<Rightarrow> xs | _ \<Rightarrow> [])"

text \<open>The field rules, read off the validators of each chain.\<close>

definition name_ok :: "string \<Rightarrow> bool" where
  "name_ok n = (notEmpty n \<and> isLength 2 100 n \<and> matches_name n)"

definition email_ok :: "library \<Rightarrow> string \<Rightarrow> bool" where
  "email_ok lib e = (isEmail lib e \<and> isLength 0 255 (normalizeEmail lib e))"

definition message_ok :: "string \<Rightarrow> bool" where
  "message_ok m = (notEmpty m \<and> isLength 10 1000 m)"

definition valid :: "library \<Rightarrow> request \<Rightarrow> bool" where
  "valid lib req =
     (name_ok (toString (body_name req)) \<and> email_ok lib (toString (body_email req))
      \<and> message_ok (toString (body_message req)))"

text \<open>
  The message rule in the words of the specification, "length in [10,1000] after
  trimming", to set beside \<open>message_ok\<close>, which measures the message as submitted.
\<close>

definition message_ok_trimmed :: "string \<Rightarrow> bool" where
  "message_ok_trimmed m = isLength 10 1000 (trim m)"

text \<open>
  A sequence of submit requests, each with the time it is handled at, run from a state:
  the responses in order and the final state.
\<close>

fun run_posts ::
  "library \<Rightarrow> (int \<times> request) list \<Rightarrow> unit server_state \<Rightarrow> response list \<times> unit server_state" where
  "run_posts lib [] s = ([], s)"
| "run_posts lib ((now, req) # rest) s =
     (let (r, s') = post_submit lib now req s;
          (rs, s'') = run_posts lib rest s'
      in (r # rs, s''))"

text \<open>The ids returned by the successful responses of a sequence.\<close>

fun returned_ids :: "response list \<Rightarrow> jsvalue list" where
  "returned_ids [] = []"
| "returned_ids (r # rs) =
     (if status r = 201 then getprop (body r) ''id'' # returned_ids rs else returned_ids rs)"

text \<open>Lowercasing of the letters \<open>A\<close> to \<open>Z\<close>.\<close>

definition toLowerCase :: "string \<Rightarrow> string" where
  "toLowerCase s =
     map (\<lambda>c. let n = (of_char c :: nat) in if 65 \<le> n \<and> n \<le> 90 then char_of (n + 32) else c) s"





section \<open>Sample inputs\<close>

text \<open>
  An instance of the library, for running the handlers on concrete requests: an address
  is taken to be one \<open>@\<close> with a non-empty local part, a dot in the domain and no
  whitespace; normalisation lowercases. The theorems below hold for every library.
\<close>

definition sample_isEmail :: "string \<Rightarrow> bool" where
  "sample_isEmail s =
     (case dropWhile (\<lambda>c. c \<noteq> CHR ''@'') s of
        [] \<Rightarrow> False
      | _ # d \<Rightarrow> takeWhile (\<lambda>c. c \<noteq> CHR ''@'') s \<noteq> [] \<and> CHR ''.'' \<in> set d
                 \<and> CHR ''@'' \<notin> set d \<and> \<not> list_ex isSpace s)"

definition sample_library :: library where
  "sample_library =
     \<lparr>isEmail = sample_isEmail, normalizeEmail = toLowerCase,
      toISOString = (\<lambda>t. decimal (nat t))\<rparr>"

definition jane :: request where
  "jane = \<lparr>body_name = Some ''Jane Doe'', body_email = Some ''JANE@Example.com'',
           body_message = Some ''Hello, this is a test message.'',
           ip = Some ''127.0.0.1'', remoteAddress = None\<rparr>"

text \<open>A store with one record that carries a further field.\<close>

definition extended_state :: "nat server_state" where
  "extended_state =
     \<lparr>submissions =
        [\<lparr>uid = ''demo-1'', name = ''Jane Doe'', email = ''jane@example.com'',
          message = ''Hello, this is a test message.'', ipAddress = ''127.0.0.1'',
          createdAt = 1000, \<dots> = 7\<rparr>],
      submissionCounter = 2\<rparr>"

text \<open>A request that breaks the rule of each field.\<close>

definition bad_request :: request where
  "bad_request = \<lparr>body_name = Some ''A'', body_email = Some ''not-an-email'',
           body_message = Some ''short'',
           ip = None, remoteAddress = Some ''10.0.0.1''\<rparr>"

text \<open>The example request without its message field.\<close>

definition missing_message :: request where
  "missing_message = jane\<lparr>body_message := None\<rparr>"

text \<open>A request whose message is ten spaces, and one whose name is a space and a letter.\<close>

definition blank_message :: request where
  "blank_message = jane\<lparr>body_message := Some ''          ''\<rparr>"

definition padded_name :: request where
  "padded_name = jane\<lparr>body_name := Some '' A''\<rparr>"

definition hyphen_name :: request where
  "hyphen_name = jane\<lparr>body_name := Some ''Anne-Marie''\<rparr>"

text \<open>The example request with a name of 100 letters and a trailing space.\<close>

definition long_padded_name :: request where
  "long_padded_name = jane\<lparr>body_name := Some (replicate 100 (CHR ''a'') @ '' '')\<rparr>"



text \<open>Two valid submissions with a rejected one between them.\<close>

definition three_requests :: "(int \<times> request) list" where
  "three_requests = [(1000, jane), (1000, bad_request), (1001, jane)]"

text \<open>Two valid submissions handled in the same millisecond.\<close>

definition same_time_requests :: "(int \<times> request) list" where
  "same_time_requests = [(1000, jane), (1000, jane)]"

text \<open>Two valid submissions one millisecond apart.\<close>

definition later_requests :: "(int \<times> request) list" where
  "later_requests = [(1000, jane), (1001, jane)]"

text \<open>Sixty valid submissions.\<close>

definition sixty_requests :: "(int \<times> request) list" where
  "sixty_requests = replicate 60 (1000, jane)"

section \<open>The listing\<close>

lemma data_items_get_submissions:
  "data_items (fst (get_submissions s)) = map JObj (recentSubmissions s)"
  by (simp add: data_items_def get_submissions_def getprop_def)

lemma length_recentSubmissions:
  "length (recentSubmissions s) = min 50 (length (submissions s))"
  by (simp add: recentSubmissions_def min.commute)

lemma recentSubmissions_projected:
  "item \<in> set (recentSubmissions s) \<Longrightarrow> \<exists>r \<in> set (submissions s). item = project r"
  by (auto simp: recentSubmissions_def dest!: in_set_takeD)

lemma keys_recentSubmissions:
  "item \<in> set (recentSubmissions s) \<Longrightarrow>
     keys item = [''_id'', ''name'', ''email'', ''message'', ''createdAt'']"
  by (auto simp: project_def keys_def dest!: recentSubmissions_projected)

lemma ipAddress_recentSubmissions:
  "item \<in> set (recentSubmissions s) \<Longrightarrow> getprop item ''ipAddress'' = JUndefined"
  by (auto simp: project_def getprop_def dest!: recentSubmissions_projected)

text \<open>
  C4. No item of the \<open>data\<close> array of a listing response has an \<open>ipAddress\<close> property,
  whatever the store holds; every stored record has one.
\<close>

theorem listing_redacts_ipAddress:
  "\<forall>v \<in> set (data_items (fst (get_submissions s))).
     \<exists>item. v = JObj item \<and> ''ipAddress'' \<notin> set (keys item)
       \<and> getprop item ''ipAddress'' = JUndefined"
proof
  fix v assume "v \<in> set (data_items (fst (get_submissions s)))"
  then obtain item where v: "v = JObj item" and "item \<in> set (recentSubmissions s)"
    by (auto simp: data_items_get_submissions)
  then have "''ipAddress'' \<notin> set (keys item)" "getprop item ''ipAddress'' = JUndefined"
    by (simp_all add: keys_recentSubmissions ipAddress_recentSubmissions)
  with v show "\<exists>item. v = JObj item \<and> ''ipAddress'' \<notin> set (keys item)
       \<and> getprop item ''ipAddress'' = JUndefined"
    by blast
qed

theorem listing_redacts_ipAddress_witness:
  "\<exists>item. data_items (fst (get_submissions extended_state)) = [JObj item]
     \<and> ''ipAddress'' \<notin> set (keys item)
     \<and> getprop item ''ipAddress'' = JUndefined
     \<and> map ipAddress (submissions extended_state) = [''127.0.0.1'']"
proof -
  obtain item where d: "data_items (fst (get_submissions extended_state)) = [JObj item]"
    by (simp add: data_items_get_submissions recentSubmissions_def extended_state_def)
  have "map ipAddress (submissions extended_state) = [''127.0.0.1'']"
    by (simp add: extended_state_def)
  with d show ?thesis
    using listing_redacts_ipAddress [of extended_state] by auto
qed



section \<open>Validation and submission\<close>

text \<open>What each chain returns: its errors and the sanitized value.\<close>

lemma run_name_chain:
  "run_chain ''name'' name_chain v =
     ((if notEmpty (toString v) then []
       else [\<lparr>path = ''name'', msg = ''Name is required'', val = v\<rparr>])
      @ (if isLength 2 100 (toString v) then []
         else [\<lparr>path = ''name'', msg = ''Name must be between 2 and 100 characters'', val = v\<rparr>])
      @ (if matches_name (toString v) then []
         else [\<lparr>path = ''name'', msg = ''Name can only contain letters and spaces'', val = v\<rparr>]),
      v)"
  by (simp add: name_chain_def)

lemma run_email_chain:
  "run_chain ''email'' (email_chain lib) v =
     ((if isEmail lib (toString v) then []
       else [\<lparr>path = ''email'', msg = ''Please enter a valid email address'', val = v\<rparr>])
      @ (if isLength 0 255 (normalizeEmail lib (toString v)) then []
         else [\<lparr>path = ''email'', msg = ''Email must be less than 255 characters'',
                val = Some (normalizeEmail lib (toString v))\<rparr>]),
      Some (normalizeEmail lib (toString v)))"
  by (simp add: email_chain_def)

lemma run_message_chain:
  "run_chain ''message'' message_chain v =
     ((if notEmpty (toString v) then []
       else [\<lparr>path = ''message'', msg = ''Message is required'', val = v\<rparr>])
      @ (if isLength 10 1000 (toString v) then []
         else [\<lparr>path = ''message'', msg = ''Message must be between 10 and 1000 characters'',
                val = v\<rparr>]),
      Some (trim (toString v)))"
  by (simp add: message_chain_def)

lemma name_errors_iff:
  "fst (run_chain ''name'' name_chain v) = [] \<longleftrightarrow> name_ok (toString v)"
  by (simp add: run_name_chain name_ok_def)

lemma email_errors_iff:
  "fst (run_chain ''email'' (email_chain lib) v) = [] \<longleftrightarrow> email_ok lib (toString v)"
  by (simp add: run_email_chain email_ok_def)

lemma message_errors_iff:
  "fst (run_chain ''message'' message_chain v) = [] \<longleftrightarrow> message_ok (toString v)"
  by (simp add: run_message_chain message_ok_def)


lemma validateInput_eq:
  "validateInput lib req =
     (fst (run_chain ''name'' name_chain (body_name req))
      @ fst (run_chain ''email'' (email_chain lib) (body_email req))
      @ fst (run_chain ''message'' message_chain (body_message req)),
      req\<lparr>body_name := body_name req,
          body_email := Some (normalizeEmail lib (toString (body_email req))),
          body_message := Some (trim (toString (body_message req)))\<rparr>)"
  by (simp add: validateInput_def run_name_chain run_email_chain run_message_chain)

lemma validateInput_errors_iff: "fst (validateInput lib req) = [] \<longleftrightarrow> valid lib req"
  by (simp add: validateInput_eq valid_def name_errors_iff email_errors_iff message_errors_iff)

text \<open>Past the validation the three fields of the sanitized body are text.\<close>

lemma accepted_fields_text:
  assumes "fst (validateInput lib req) = []"
  shows "\<exists>n e m. body_name (snd (validateInput lib req)) = Some n
           \<and> body_email (snd (validateInput lib req)) = Some e
           \<and> body_message (snd (validateInput lib req)) = Some m"
proof -
  from assms have "notEmpty (toString (body_name req))"
    by (simp add: validateInput_errors_iff valid_def name_ok_def)
  then obtain n where "body_name req = Some n"
    by (cases "body_name req") (simp_all add: notEmpty_def)
  then show ?thesis by (simp add: validateInput_eq)
qed




text \<open>The properties of an error object in the response.\<close>

lemma error_json_item:
  "\<exists>item. error_json e = JObj item
     \<and> getprop item ''type'' = JStr ''field''
     \<and> getprop item ''value'' = (case val e of None \<Rightarrow> JUndefined | Some v \<Rightarrow> JStr v)
     \<and> getprop item ''msg'' = JStr (msg e)
     \<and> getprop item ''path'' = JStr (path e)
     \<and> getprop item ''location'' = JStr ''body''"
  by (cases "val e") (simp_all add: error_json_def getprop_def)


lemma post_submit_rejected:
  "fst (validateInput lib req) \<noteq> [] \<Longrightarrow>
   post_submit lib now req s =
     (\<lparr>status = 400,
       body = [(''success'', JBool False),
               (''message'', JStr ''Validation failed''),
               (''errors'', JArr (map error_json (fst (validateInput lib req))))]\<rparr>, s)"
  by (cases "validateInput lib req") (simp add: post_submit_def)

lemma post_submit_accepted:
  "fst (validateInput lib req) = [] \<Longrightarrow>
   post_submit lib now req s =
     (\<lparr>status = 201,
       body = [(''success'', JBool True),
               (''message'', JStr ''Data saved successfully''),
               (''id'', JStr (''demo-'' @ decimal (submissionCounter s)))]\<rparr>,
      \<lparr>submissions = submissions s @
         [\<lparr>uid = ''demo-'' @ decimal (submissionCounter s),
           name = toString (body_name req),
           email = normalizeEmail lib (toString (body_email req)),
           message = trim (toString (body_message req)),
           ipAddress = origin req,
           createdAt = now\<rparr>],
       submissionCounter = submissionCounter s + 1\<rparr>)"
  by (simp add: post_submit_def validateInput_eq origin_def Let_def)




lemma missing_message_errors:
  "getprop (body (fst (post_submit sample_library 1000 missing_message initial_state))) ''errors''
     = JArr [JObj [(''type'', JStr ''field''), (''msg'', JStr ''Message is required''),
                   (''path'', JStr ''message''), (''location'', JStr ''body'')],
             JObj [(''type'', JStr ''field''),
                   (''msg'', JStr ''Message must be between 10 and 1000 characters''),
                   (''path'', JStr ''message''), (''location'', JStr ''body'')]]"
  by code_simp


section \<open>The stored message and the name rule\<close>

lemma stored_message:
  "valid lib req \<Longrightarrow>
   map message (submissions (snd (post_submit lib now req s)))
     = map message (submissions s) @ [trim (toString (body_message req))]"
  by (simp add: post_submit_accepted validateInput_errors_iff)

lemma length_trim: "length (trim m) \<le> length m"
proof -
  have "length (dropWhile P xs) \<le> length xs" for P and xs :: string
    by (induction xs) auto
  from this [of isSpace "rev (dropWhile isSpace m)"] this [of isSpace m]
  show ?thesis by (simp add: trim_def)
qed

text \<open>
  C1. A message of ten spaces passes \<open>notEmpty\<close> and the length check, which both run
  before \<open>trim\<close>: the request is answered 201 and the stored message is empty.
\<close>

theorem blank_message_stored:
  "status (fst (post_submit sample_library 1000 blank_message initial_state)) = 201
   \<and> map message (submissions (snd (post_submit sample_library 1000 blank_message initial_state)))
       = ['''']
   \<and> length (trim (''''::string)) < 10"
  by code_simp

text \<open>
  C2. The name chain checks the name as submitted: a space followed by one letter is
  accepted and stored, although it has one character after trimming.
\<close>

theorem name_untrimmed_counterexample:
  "fst (run_chain ''name'' name_chain (Some '' A'')) = []
   \<and> length (trim '' A'') = 1
   \<and> status (fst (post_submit sample_library 1000 padded_name initial_state)) = 201
   \<and> map name (submissions (snd (post_submit sample_library 1000 padded_name initial_state)))
       = ['' A'']"
  by code_simp

text \<open>
  C2, amended. A name that is not all whitespace is accepted if and only if its length as
  submitted is in [2,100] and it consists of letters and whitespace only; a name with any
  other character is rejected with status 400 and the name error of the pattern, and
  nothing is stored.
\<close>

theorem name_rule:
  "(\<not> list_all isSpace n \<longrightarrow>
      (fst (run_chain ''name'' name_chain (Some n)) = [] \<longleftrightarrow>
         2 \<le> length n \<and> length n \<le> 100 \<and> list_all (\<lambda>c. isLetter c \<or> isSpace c) n))
   \<and> ((\<exists>c \<in> set (toString (body_name req)). \<not> isLetter c \<and> \<not> isSpace c) \<longrightarrow>
        status (fst (post_submit lib now req s)) = 400
        \<and> (\<exists>errs. getprop (body (fst (post_submit lib now req s))) ''errors''
                     = JArr (map error_json errs)
              \<and> \<lparr>path = ''name'', msg = ''Name can only contain letters and spaces'',
                  val = body_name req\<rparr> \<in> set errs
              \<and> (\<exists>item. JObj item \<in> set (map error_json errs)
                    \<and> getprop item ''path'' = JStr ''name''
                    \<and> getprop item ''msg'' = JStr ''Name can only contain letters and spaces''
                    \<and> getprop item ''value'' = JStr (toString (body_name req))))
        \<and> snd (post_submit lib now req s) = s)"
proof (intro conjI impI)
  show "fst (run_chain ''name'' name_chain (Some n)) = [] \<longleftrightarrow>
         2 \<le> length n \<and> length n \<le> 100 \<and> list_all (\<lambda>c. isLetter c \<or> isSpace c) n"
    by (auto simp: run_name_chain notEmpty_def isLength_def matches_name_def)
next
  assume bad: "\<exists>c \<in> set (toString (body_name req)). \<not> isLetter c \<and> \<not> isSpace c"
  then have nm: "\<not> matches_name (toString (body_name req))"
    by (auto simp: matches_name_def list_all_iff)
  from bad obtain v where v: "body_name req = Some v"
    by (cases "body_name req") auto
  let ?e = "\<lparr>path = ''name'', msg = ''Name can only contain letters and spaces'',
              val = body_name req\<rparr>"
  let ?errs = "fst (validateInput lib req)"
  from nm have mem: "?e \<in> set ?errs"
    by (simp add: validateInput_eq run_name_chain)
  then have ne: "?errs \<noteq> []" by auto
  note r = post_submit_rejected [OF ne, of now s]
  show "status (fst (post_submit lib now req s)) = 400" by (simp add: r)
  show "snd (post_submit lib now req s) = s" by (simp add: r)
  from error_json_item [of ?e] v obtain item where
    "error_json ?e = JObj item" "getprop item ''path'' = JStr ''name''"
    "getprop item ''msg'' = JStr ''Name can only contain letters and spaces''"
    "getprop item ''value'' = JStr (toString (body_name req))"
    by auto
  with mem have "\<exists>item. JObj item \<in> set (map error_json ?errs)
                    \<and> getprop item ''path'' = JStr ''name''
                    \<and> getprop item ''msg'' = JStr ''Name can only contain letters and spaces''
                    \<and> getprop item ''value'' = JStr (toString (body_name req))"
    by force
  with mem show "\<exists>errs. getprop (body (fst (post_submit lib now req s))) ''errors''
                     = JArr (map error_json errs)
              \<and> ?e \<in> set errs
              \<and> (\<exists>item. JObj item \<in> set (map error_json errs)
                    \<and> getprop item ''path'' = JStr ''name''
                    \<and> getprop item ''msg'' = JStr ''Name can only contain letters and spaces''
                    \<and> getprop item ''value'' = JStr (toString (body_name req)))"
    by (intro exI [of _ ?errs]) (simp add: r getprop_def)
qed

theorem name_rule_witness:
  "\<not> list_all isSpace ''Jane Doe''
   \<and> fst (run_chain ''name'' name_chain (Some ''Jane Doe'')) = []
   \<and> (\<exists>c \<in> set (toString (body_name hyphen_name)). \<not> isLetter c \<and> \<not> isSpace c)
   \<and> status (fst (post_submit sample_library 1000 hyphen_name initial_state)) = 400
   \<and> (\<exists>errs item. getprop (body (fst (post_submit sample_library 1000 hyphen_name initial_state)))
                      ''errors'' = JArr (map error_json errs)
         \<and> JObj item \<in> set (map error_json errs)
         \<and> getprop item ''path'' = JStr ''name''
         \<and> getprop item ''value'' = JStr ''Anne-Marie'')
   \<and> snd (post_submit sample_library 1000 hyphen_name initial_state) = initial_state"
proof -
  have a: "\<not> list_all isSpace ''Jane Doe''" by code_simp
  have b: "2 \<le> length ''Jane Doe'' \<and> length ''Jane Doe'' \<le> 100
        \<and> list_all (\<lambda>c. isLetter c \<or> isSpace c) ''Jane Doe''" by code_simp
  have c: "\<exists>c \<in> set (toString (body_name hyphen_name)). \<not> isLetter c \<and> \<not> isSpace c"
    by code_simp
  have d: "toString (body_name hyphen_name) = ''Anne-Marie''" by code_simp
  from name_rule [of "''Jane Doe''" hyphen_name sample_library 1000 initial_state] a b c
  have "fst (run_chain ''name'' name_chain (Some ''Jane Doe'')) = []"
    and "status (fst (post_submit sample_library 1000 hyphen_name initial_state)) = 400"
    and "snd (post_submit sample_library 1000 hyphen_name initial_state) = initial_state"
    and "\<exists>errs. getprop (body (fst (post_submit sample_library 1000 hyphen_name initial_state)))
                      ''errors'' = JArr (map error_json errs)
         \<and> (\<exists>item. JObj item \<in> set (map error_json errs)
              \<and> getprop item ''path'' = JStr ''name''
              \<and> getprop item ''value'' = JStr (toString (body_name hyphen_name)))"
    by blast+
  with a c d show ?thesis by auto
qed

section \<open>The health check\<close>

text \<open>
  C8. The health response of the demo server has no \<open>database_status\<close> property, its
  \<open>database\<close> property is not \<open>available\<close>, and the health response of the MongoDB
  server has no \<open>submissions_count\<close>.
\<close>

theorem health_fields_counterexample:
  "''database_status'' \<notin> set (keys (body (get_health sample_library 1000 initial_state)))
   \<and> getprop (body (get_health sample_library 1000 initial_state)) ''database''
       = JStr ''demo-mode (in-memory)''
   \<and> ''database_status'' \<notin> set (keys (body (get_health_mongo sample_library 1000 1)))
   \<and> ''submissions_count'' \<notin> set (keys (body (get_health_mongo sample_library 1000 1)))"
  by (simp add: get_health_def get_health_mongo_def keys_def getprop_def)

text \<open>
  C8, amended. In every state the health check answers 200 with \<open>status: healthy\<close> and
  the current time as \<open>timestamp\<close>. The demo server adds \<open>database\<close>, always
  \<open>demo-mode (in-memory)\<close>, and \<open>submissions_count\<close>, the number of stored records; the
  MongoDB server adds only \<open>database\<close>, \<open>connected\<close> when the connection state is 1 and
  \<open>disconnected\<close> otherwise.
\<close>

theorem health_response:
  "status (get_health lib now s) = 200
   \<and> keys (body (get_health lib now s))
       = [''status'', ''timestamp'', ''database'', ''submissions_count'']
   \<and> getprop (body (get_health lib now s)) ''status'' = JStr ''healthy''
   \<and> getprop (body (get_health lib now s)) ''timestamp'' = JStr (toISOString lib now)
   \<and> getprop (body (get_health lib now s)) ''database'' = JStr ''demo-mode (in-memory)''
   \<and> getprop (body (get_health lib now s)) ''submissions_count''
       = JNum (int (length (submissions s)))
   \<and> status (get_health_mongo lib now readyState) = 200
   \<and> keys (body (get_health_mongo lib now readyState)) = [''status'', ''timestamp'', ''database'']
   \<and> getprop (body (get_health_mongo lib now readyState)) ''status'' = JStr ''healthy''
   \<and> getprop (body (get_health_mongo lib now readyState)) ''timestamp''
       = JStr (toISOString lib now)
   \<and> getprop (body (get_health_mongo lib now readyState)) ''database''
       = JStr (if readyState = 1 then ''connected'' else ''disconnected'')"
  by (simp add: get_health_def get_health_mongo_def keys_def getprop_def)

section \<open>Identifiers\<close>

lemma digit_inj: "a < 10 \<Longrightarrow> b < 10 \<Longrightarrow> digit a = digit b \<Longrightarrow> a = b"
proof -
  assume "a < 10" "b < 10" "digit a = digit b"
  moreover have "distinct ''0123456789''" by simp
  ultimately show "a = b"
    by (simp add: digit_def nth_eq_iff_index_eq)
qed

lemma decimal_nonempty: "decimal n \<noteq> []"
  by (subst decimal.simps) simp

lemma decimal_inj: "decimal m = decimal n \<Longrightarrow> m = n"
proof (induction m arbitrary: n rule: decimal.induct)
  case (1 m)
  show ?case
  proof (cases "m < 10")
    case True
    then have m: "decimal m = [digit m]" by (subst decimal.simps) simp
    show ?thesis
    proof (cases "n < 10")
      case True
      then have "decimal n = [digit n]" by (subst decimal.simps) simp
      with m "1.prems" \<open>m < 10\<close> True show ?thesis by (auto dest: digit_inj)
    next
      case False
      then have "decimal n = decimal (n div 10) @ [digit (n mod 10)]"
        by (subst decimal.simps) simp
      with m "1.prems" show ?thesis by (simp add: decimal_nonempty)
    qed
  next
    case False
    then have m: "decimal m = decimal (m div 10) @ [digit (m mod 10)]"
      by (subst decimal.simps) simp
    show ?thesis
    proof (cases "n < 10")
      case True
      then have "decimal n = [digit n]" by (subst decimal.simps) simp
      with m "1.prems" show ?thesis
        by (metis append_is_Nil_conv butlast_snoc butlast.simps(2) decimal_nonempty)
    next
      case F: False
      then have n: "decimal n = decimal (n div 10) @ [digit (n mod 10)]"
        by (subst decimal.simps) simp
      from m n "1.prems" have "decimal (m div 10) = decimal (n div 10)"
        and d: "digit (m mod 10) = digit (n mod 10)" by simp_all
      with "1.IH" False have "m div 10 = n div 10" by blast
      moreover from d have "m mod 10 = n mod 10" by (auto dest!: digit_inj [rotated 2])
      ultimately show ?thesis by (metis div_mult_mod_eq)
    qed
  qed
qed

lemma run_posts_Cons:
  "run_posts lib ((now, req) # rest) s =
     (fst (post_submit lib now req s) # fst (run_posts lib rest (snd (post_submit lib now req s))),
      snd (run_posts lib rest (snd (post_submit lib now req s))))"
  by (simp add: split_beta)

lemma post_submit_valid:
  assumes "valid lib req"
  shows "status (fst (post_submit lib now req s)) = 201"
    and "getprop (body (fst (post_submit lib now req s))) ''id''
           = JStr (''demo-'' @ decimal (submissionCounter s))"
    and "submissionCounter (snd (post_submit lib now req s)) = submissionCounter s + 1"
    and "map uid (submissions (snd (post_submit lib now req s)))
           = map uid (submissions s) @ [''demo-'' @ decimal (submissionCounter s)]"
  using assms by (simp_all add: post_submit_accepted validateInput_errors_iff getprop_def)

lemma post_submit_invalid:
  assumes "\<not> valid lib req"
  shows "status (fst (post_submit lib now req s)) = 400"
    and "snd (post_submit lib now req s) = s"
  using assms by (simp_all add: post_submit_rejected validateInput_errors_iff)

lemma run_posts_ids:
  "submissionCounter s \<le> submissionCounter (snd (run_posts lib reqs s))
   \<and> returned_ids (fst (run_posts lib reqs s))
       = map (\<lambda>k. JStr (''demo-'' @ decimal k))
           [submissionCounter s ..< submissionCounter (snd (run_posts lib reqs s))]
   \<and> map uid (submissions (snd (run_posts lib reqs s)))
       = map uid (submissions s) @ map (\<lambda>k. ''demo-'' @ decimal k)
           [submissionCounter s ..< submissionCounter (snd (run_posts lib reqs s))]"
proof (induction reqs arbitrary: s)
  case Nil
  show ?case by simp
next
  case (Cons a rest)
  obtain now req where a: "a = (now, req)" by (cases a)
  let ?s1 = "snd (post_submit lib now req s)"
  let ?s2 = "snd (run_posts lib rest ?s1)"
  note IH = Cons.IH [of ?s1]
  have run: "fst (run_posts lib (a # rest) s)
        = fst (post_submit lib now req s) # fst (run_posts lib rest ?s1)"
      "snd (run_posts lib (a # rest) s) = ?s2"
    unfolding a by (simp_all only: run_posts_Cons fst_conv snd_conv)
  show ?case
  proof (cases "valid lib req")
    case True
    note v = post_submit_valid [OF True, of now s]
    from IH v(3) have lt: "submissionCounter s < submissionCounter ?s2" by simp
    then have upt: "[submissionCounter s ..< submissionCounter ?s2]
        = submissionCounter s # [submissionCounter s + 1 ..< submissionCounter ?s2]"
      by (simp add: upt_conv_Cons)
    show ?thesis
      using IH lt unfolding run by (simp add: v upt)
  next
    case False
    note i = post_submit_invalid [OF False, of now s]
    show ?thesis
      using IH unfolding run by (simp add: i)
  qed
qed

lemma distinct_demo_ids:
  "distinct (map (\<lambda>k. JStr (''demo-'' @ decimal k)) [i ..< j])"
  "distinct (map (\<lambda>k. ''demo-'' @ decimal k) [i ..< j])"
  by (auto simp: distinct_map inj_on_def dest: decimal_inj)

text \<open>
  C7. A name of 100 letters and a trailing space satisfies the name rule of the
  specification (100 characters after trimming, letters and whitespace only), with the
  e-mail address and the message of the example; the request is answered 400 and nothing
  is stored, because the name is measured as submitted.
\<close>

theorem trailing_space_name_rejected:
  "length (trim (toString (body_name long_padded_name))) = 100
   \<and> list_all (\<lambda>c. isLetter c \<or> isSpace c) (toString (body_name long_padded_name))
   \<and> email_ok sample_library (toString (body_email long_padded_name))
   \<and> message_ok_trimmed (toString (body_message long_padded_name))
   \<and> status (fst (post_submit sample_library 1000 long_padded_name initial_state)) = 400
   \<and> snd (post_submit sample_library 1000 long_padded_name initial_state) = initial_state"
  by code_simp

text \<open>
  C7, amended. A request is answered 201 with the id \<open>demo-\<close> followed by the counter, an
  id that no earlier successful submission has returned, when its name has a length in
  [2,100] as submitted, consists of letters and whitespace only and is not all whitespace,
  its e-mail address passes the syntax check and has at most 255 characters after
  normalisation, and its message has a length in [10,1000] both as submitted and after
  trimming. The ids returned along any sequence of requests are pairwise different, and so
  are the ids of the records stored since the server started.
\<close>

theorem fresh_ids:
  "(valid lib req \<and> \<not> list_all isSpace (toString (body_name req))
      \<and> message_ok_trimmed (toString (body_message req)) \<longrightarrow>
      status (fst (post_submit lib now req s)) = 201
      \<and> getprop (body (fst (post_submit lib now req s))) ''id''
          = JStr (''demo-'' @ decimal (submissionCounter s))
      \<and> getprop (body (fst (post_submit lib now req (snd (run_posts lib reqs s0))))) ''id''
          \<notin> set (returned_ids (fst (run_posts lib reqs s0))))
   \<and> distinct (returned_ids (fst (run_posts lib reqs s)))
   \<and> distinct (map uid (submissions (snd (run_posts lib reqs initial_state))))"
proof (intro conjI impI)
  assume h: "valid lib req \<and> \<not> list_all isSpace (toString (body_name req))
      \<and> message_ok_trimmed (toString (body_message req))"
  then have v: "valid lib req" by blast
  show "status (fst (post_submit lib now req s)) = 201"
    and "getprop (body (fst (post_submit lib now req s))) ''id''
          = JStr (''demo-'' @ decimal (submissionCounter s))"
    by (rule post_submit_valid [OF v])+
  let ?s1 = "snd (run_posts lib reqs s0)"
  have ids: "returned_ids (fst (run_posts lib reqs s0))
      = map (\<lambda>k. JStr (''demo-'' @ decimal k)) [submissionCounter s0 ..< submissionCounter ?s1]"
    using run_posts_ids [of s0 lib reqs] by blast
  have new: "getprop (body (fst (post_submit lib now req ?s1))) ''id''
      = JStr (''demo-'' @ decimal (submissionCounter ?s1))"
    by (rule post_submit_valid [OF v])
  show "getprop (body (fst (post_submit lib now req ?s1))) ''id''
          \<notin> set (returned_ids (fst (run_posts lib reqs s0)))"
    unfolding ids new by (auto dest: decimal_inj)
next
  show "distinct (returned_ids (fst (run_posts lib reqs s)))"
    using run_posts_ids [of s lib reqs] by (simp only: distinct_demo_ids)
next
  have "map uid (submissions initial_state) = []" by (simp add: initial_state_def)
  then show "distinct (map uid (submissions (snd (run_posts lib reqs initial_state))))"
    using run_posts_ids [of initial_state lib reqs]
    by (simp only: distinct_demo_ids append_Nil)
qed

lemma three_posts:
  "returned_ids (fst (run_posts sample_library three_requests initial_state))
     = [JStr ''demo-1'', JStr ''demo-2'']"
  by code_simp

lemma jane_valid: "valid sample_library jane"
  by code_simp

lemma jane_by_design:
  "\<not> list_all isSpace (toString (body_name jane))"
  "message_ok_trimmed (toString (body_message jane))"
  by code_simp+

theorem fresh_ids_witness:
  "valid sample_library jane
   \<and> \<not> list_all isSpace (toString (body_name jane))
   \<and> message_ok_trimmed (toString (body_message jane))
   \<and> status (fst (post_submit sample_library 1000 jane initial_state)) = 201
   \<and> getprop (body (fst (post_submit sample_library 1000 jane initial_state))) ''id''
       = JStr ''demo-1''
   \<and> returned_ids (fst (run_posts sample_library three_requests initial_state))
       = [JStr ''demo-1'', JStr ''demo-2'']
   \<and> JStr ''demo-3'' \<notin> set (returned_ids (fst (run_posts sample_library three_requests
                                                 initial_state)))
   \<and> distinct (returned_ids (fst (run_posts sample_library three_requests initial_state)))"
proof -
  have one: "decimal (submissionCounter initial_state) = ''1''" by code_simp
  from fresh_ids [where lib = sample_library and req = jane and now = 1000
      and s = initial_state and reqs = three_requests and ?s0.0 = initial_state]
    jane_valid jane_by_design
  have "status (fst (post_submit sample_library 1000 jane initial_state)) = 201"
    and "getprop (body (fst (post_submit sample_library 1000 jane initial_state))) ''id''
          = JStr (''demo-'' @ decimal (submissionCounter initial_state))"
    and "getprop (body (fst (post_submit sample_library 1000 jane
            (snd (run_posts sample_library three_requests initial_state))))) ''id''
          \<notin> set (returned_ids (fst (run_posts sample_library three_requests initial_state)))"
    and "distinct (returned_ids (fst (run_posts sample_library three_requests initial_state)))"
    by blast+
  moreover have "getprop (body (fst (post_submit sample_library 1000 jane
            (snd (run_posts sample_library three_requests initial_state))))) ''id''
          = JStr ''demo-3''"
    by code_simp
  ultimately show ?thesis
    using jane_valid jane_by_design three_posts one by simp
qed

section \<open>The order of the listing\<close>

lemma date_of_project: "date_of (project r) = createdAt r"
  by (simp add: date_of_def project_def getprop_def)

lemma sorted_recentSubmissions:
  "sorted_wrt (\<lambda>a b. date_of b \<le> date_of a) (recentSubmissions s)"
proof -
  let ?ys = "sort_key (\<lambda>obj. - date_of obj) (map project (submissions s))"
  have "sorted (map (\<lambda>obj. - date_of obj) ?ys)"
    by (rule sorted_sort_key)
  then have "sorted_wrt (\<lambda>a b. date_of b \<le> date_of a) ?ys"
    by (simp add: sorted_map)
  then show ?thesis
    unfolding recentSubmissions_def by (rule sorted_wrt_take)
qed

lemma prefix_filter_take: "prefix (filter P (take n zs)) (filter P zs)"
proof -
  have "filter P zs = filter P (take n zs) @ filter P (drop n zs)"
    by (metis append_take_drop_id filter_append)
  then show ?thesis by (simp add: prefix_def)
qed

lemma ties_recentSubmissions:
  "prefix (filter (\<lambda>item. date_of item = t) (recentSubmissions s))
          (map project (filter (\<lambda>r. createdAt r = t) (submissions s)))"
proof -
  let ?k = "\<lambda>obj. - date_of obj"
  let ?xs = "map project (submissions s)"
  have "filter (\<lambda>item. date_of item = t) (sort_key ?k ?xs)
          = filter (\<lambda>item. ?k item = - t) (sort_key ?k ?xs)"
    by simp
  also have "\<dots> = filter (\<lambda>item. ?k item = - t) ?xs"
    by (rule sort_key_stable)
  also have "\<dots> = map project (filter (\<lambda>r. createdAt r = t) (submissions s))"
    by (simp add: filter_map comp_def date_of_project)
  finally have "filter (\<lambda>item. date_of item = t) (sort_key ?k ?xs)
          = map project (filter (\<lambda>r. createdAt r = t) (submissions s))" .
  then show ?thesis
    unfolding recentSubmissions_def
    using prefix_filter_take [of "\<lambda>item. date_of item = t" 50 "sort_key ?k ?xs"] by simp
qed

lemma later_listed_before:
  assumes a: "a \<in> set (submissions s)" and lt: "createdAt b < createdAt a"
    and i: "i < length (recentSubmissions s)" "recentSubmissions s ! i = project b"
  shows "\<exists>j<i. recentSubmissions s ! j = project a"
proof -
  let ?k = "\<lambda>obj. - date_of obj"
  let ?ys = "sort_key ?k (map project (submissions s))"
  have rs: "recentSubmissions s = take 50 ?ys" by (simp add: recentSubmissions_def)
  from i rs have i50: "i < 50" "i < length ?ys" and yi: "?ys ! i = project b" by simp_all
  from a have "project a \<in> set ?ys" by simp
  then have "\<exists>j<length ?ys. ?ys ! j = project a"
    by (simp only: in_set_conv_nth)
  then obtain j where j: "j < length ?ys" "?ys ! j = project a"
    by blast
  have srt: "sorted (map ?k ?ys)" by (rule sorted_sort_key)
  have "j < i"
  proof (rule ccontr)
    assume "\<not> j < i"
    then have "i \<le> j" by simp
    with srt j(1) have "map ?k ?ys ! i \<le> map ?k ?ys ! j"
      by (intro sorted_nth_mono) simp_all
    with i50 j yi have "- createdAt b \<le> - createdAt a" by (simp add: date_of_project)
    with lt show False by simp
  qed
  with i50 j rs have "recentSubmissions s ! j = project a" by simp
  with \<open>j < i\<close> show ?thesis by blast
qed

text \<open>
  C3. Two submissions handled in the same millisecond are listed in the order they were
  made, the first one first.
\<close>

theorem listing_ties_counterexample:
  "map createdAt (submissions (snd (run_posts sample_library same_time_requests initial_state)))
     = [1000, 1000]
   \<and> map (\<lambda>item. getprop item ''_id'')
        (recentSubmissions (snd (run_posts sample_library same_time_requests initial_state)))
       = [JStr ''demo-1'', JStr ''demo-2'']"
  by code_simp

text \<open>
  C3, amended. The listing is ordered by \<open>createdAt\<close>, latest first; records with the same
  \<open>createdAt\<close> appear in insertion order; and after a submission at time \<open>t1\<close> followed by
  one at a later time \<open>t2\<close>, the second is listed before the first wherever the first is
  listed.
\<close>

theorem listing_order:
  "data_items (fst (get_submissions s)) = map JObj (recentSubmissions s)
   \<and> sorted_wrt (\<lambda>a b. date_of b \<le> date_of a) (recentSubmissions s)
   \<and> (\<forall>t. prefix (filter (\<lambda>item. date_of item = t) (recentSubmissions s))
                  (map project (filter (\<lambda>r. createdAt r = t) (submissions s))))
   \<and> (valid lib req1 \<and> valid lib req2 \<and> t1 < t2 \<longrightarrow>
        (\<exists>r1 r2. submissions (snd (run_posts lib [(t1, req1), (t2, req2)] s0))
                   = submissions s0 @ [r1, r2]
           \<and> createdAt r1 = t1 \<and> createdAt r2 = t2
           \<and> (\<forall>i < length (recentSubmissions (snd (run_posts lib [(t1, req1), (t2, req2)] s0))).
                 recentSubmissions (snd (run_posts lib [(t1, req1), (t2, req2)] s0)) ! i = project r1
                 \<longrightarrow> (\<exists>j<i. recentSubmissions (snd (run_posts lib [(t1, req1), (t2, req2)] s0)) ! j
                               = project r2))))"
proof (intro conjI impI allI)
  show "data_items (fst (get_submissions s)) = map JObj (recentSubmissions s)"
    by (rule data_items_get_submissions)
  show "sorted_wrt (\<lambda>a b. date_of b \<le> date_of a) (recentSubmissions s)"
    by (rule sorted_recentSubmissions)
  show "prefix (filter (\<lambda>item. date_of item = t) (recentSubmissions s))
               (map project (filter (\<lambda>r. createdAt r = t) (submissions s)))" for t
    by (rule ties_recentSubmissions)
next
  assume h: "valid lib req1 \<and> valid lib req2 \<and> t1 < t2"
  define s1 where "s1 = snd (post_submit lib t1 req1 s0)"
  define s2 where "s2 = snd (run_posts lib [(t1, req1), (t2, req2)] s0)"
  from h have v1: "fst (validateInput lib req1) = []" and v2: "fst (validateInput lib req2) = []"
    by (simp_all add: validateInput_errors_iff)
  have s2: "s2 = snd (post_submit lib t2 req2 s1)"
    by (simp add: s1_def s2_def split_beta)
  obtain r1 where r1: "submissions s1 = submissions s0 @ [r1]" "createdAt r1 = t1"
    by (simp add: s1_def post_submit_accepted [OF v1])
  obtain r2 where r2: "submissions s2 = submissions s1 @ [r2]" "createdAt r2 = t2"
    by (simp add: s2 post_submit_accepted [OF v2])
  have "\<forall>i < length (recentSubmissions s2).
          recentSubmissions s2 ! i = project r1
            \<longrightarrow> (\<exists>j<i. recentSubmissions s2 ! j = project r2)"
  proof (intro allI impI)
    fix i assume "i < length (recentSubmissions s2)" "recentSubmissions s2 ! i = project r1"
    moreover have "r2 \<in> set (submissions s2)" by (simp add: r2)
    moreover from h r1 r2 have "createdAt r1 < createdAt r2" by simp
    ultimately show "\<exists>j<i. recentSubmissions s2 ! j = project r2"
      by (intro later_listed_before)
  qed
  with r1 r2 have "\<exists>r1 r2. submissions s2 = submissions s0 @ [r1, r2]
           \<and> createdAt r1 = t1 \<and> createdAt r2 = t2
           \<and> (\<forall>i < length (recentSubmissions s2).
                 recentSubmissions s2 ! i = project r1
                 \<longrightarrow> (\<exists>j<i. recentSubmissions s2 ! j = project r2))"
    by (intro exI [of _ r1] exI [of _ r2]) simp
  then show "\<exists>r1 r2. submissions (snd (run_posts lib [(t1, req1), (t2, req2)] s0))
                   = submissions s0 @ [r1, r2]
           \<and> createdAt r1 = t1 \<and> createdAt r2 = t2
           \<and> (\<forall>i < length (recentSubmissions (snd (run_posts lib [(t1, req1), (t2, req2)] s0))).
                 recentSubmissions (snd (run_posts lib [(t1, req1), (t2, req2)] s0)) ! i = project r1
                 \<longrightarrow> (\<exists>j<i. recentSubmissions (snd (run_posts lib [(t1, req1), (t2, req2)] s0)) ! j
                               = project r2))"
    unfolding s2_def .
qed

theorem listing_order_witness:
  "valid sample_library jane \<and> (1000::int) < 1001
   \<and> (\<exists>r1 r2. submissions (snd (run_posts sample_library later_requests initial_state)) = [r1, r2]
         \<and> createdAt r1 = 1000 \<and> createdAt r2 = 1001
         \<and> recentSubmissions (snd (run_posts sample_library later_requests initial_state)) ! 1
             = project r1
         \<and> recentSubmissions (snd (run_posts sample_library later_requests initial_state)) ! 0
             = project r2)"
proof -
  let ?S = "snd (run_posts sample_library later_requests initial_state)"
  have len: "length (recentSubmissions ?S) = 2"
    and nth: "recentSubmissions ?S ! 1 = project (submissions ?S ! 0)"
    and init: "submissions initial_state = []"
    by code_simp+
  have "valid sample_library jane \<and> valid sample_library jane \<and> (1000::int) < 1001"
    by (simp add: jane_valid)
  with listing_order [of initial_state sample_library jane jane 1000 1001 initial_state]
  obtain r1 r2 where r: "submissions ?S = [r1, r2]" "createdAt r1 = 1000" "createdAt r2 = 1001"
    and ord: "\<forall>i < length (recentSubmissions ?S). recentSubmissions ?S ! i = project r1
                \<longrightarrow> (\<exists>j<i. recentSubmissions ?S ! j = project r2)"
    unfolding later_requests_def init by auto
  from nth r have one: "recentSubmissions ?S ! 1 = project r1" by simp
  from len have "(1::nat) < length (recentSubmissions ?S)" by simp
  with ord one have "\<exists>j<1. recentSubmissions ?S ! j = project r2" by blast
  then have "recentSubmissions ?S ! 0 = project r2" by simp
  with r one show ?thesis by (simp add: jane_valid)
qed

section \<open>The stored e-mail address\<close>



















section \<open>The limit of the listing\<close>

lemma run_posts_length:
  "length (submissions (snd (run_posts lib reqs s)))
     = length (submissions s) + length (filter (\<lambda>(t, r). valid lib r) reqs)"
proof (induction reqs arbitrary: s)
  case Nil
  show ?case by simp
next
  case (Cons a rest)
  obtain now req where a: "a = (now, req)" by (cases a)
  have run: "snd (run_posts lib (a # rest) s)
        = snd (run_posts lib rest (snd (post_submit lib now req s)))"
    unfolding a by (simp only: run_posts_Cons snd_conv)
  show ?case
  proof (cases "valid lib req")
    case True
    then have "length (submissions (snd (post_submit lib now req s)))
        = length (submissions s) + 1"
      by (simp add: post_submit_accepted validateInput_errors_iff)
    with True show ?thesis
      unfolding run by (simp add: Cons.IH a)
  next
    case False
    then show ?thesis
      unfolding run by (simp add: Cons.IH a post_submit_invalid)
  qed
qed

text \<open>
  C5. The listing returns at most 50 items, exactly \<open>min 50 n\<close> for a store of \<open>n\<close>
  records; after a sequence of requests of which 60 or more are accepted, whatever the
  store held before, it returns exactly 50.
\<close>

theorem listing_limit:
  "length (data_items (fst (get_submissions s))) \<le> 50
   \<and> length (data_items (fst (get_submissions s))) = min 50 (length (submissions s))
   \<and> (60 \<le> length (filter (\<lambda>(t, r). valid lib r) reqs) \<longrightarrow>
        length (data_items (fst (get_submissions (snd (run_posts lib reqs s0))))) = 50)"
proof (intro conjI impI)
  show "length (data_items (fst (get_submissions s))) = min 50 (length (submissions s))"
    by (simp add: data_items_get_submissions length_recentSubmissions)
  then show "length (data_items (fst (get_submissions s))) \<le> 50"
    by simp
next
  assume "60 \<le> length (filter (\<lambda>(t, r). valid lib r) reqs)"
  then have "60 \<le> length (submissions (snd (run_posts lib reqs s0)))"
    by (simp add: run_posts_length)
  then show "length (data_items (fst (get_submissions (snd (run_posts lib reqs s0))))) = 50"
    by (simp add: data_items_get_submissions length_recentSubmissions)
qed

theorem listing_limit_witness:
  "60 \<le> length (filter (\<lambda>(t, r). valid sample_library r) sixty_requests)
   \<and> length (submissions (snd (run_posts sample_library sixty_requests initial_state))) = 60
   \<and> length (data_items (fst (get_submissions
        (snd (run_posts sample_library sixty_requests initial_state))))) = 50"
proof -
  have h: "60 \<le> length (filter (\<lambda>(t, r). valid sample_library r) sixty_requests)"
    by (simp add: sixty_requests_def jane_valid)
  have "length (submissions (snd (run_posts sample_library sixty_requests initial_state))) = 60"
    using run_posts_length [of sample_library sixty_requests initial_state]
    by (simp add: sixty_requests_def jane_valid initial_state_def)
  with h show ?thesis
    using listing_limit [of initial_state sample_library sixty_requests initial_state]
    by simp
qed

end
